theory Spec2Isabelle
  imports Main "HOL-Library.AList" "HOL-Library.Sublist"
begin

section \<open>The intermediate event vocabulary (src/ai/index.ts, \<open>AiSDKChunk\<close>)\<close>

text \<open>
  The adapters read only a few fields of each stream part, so every variant carries
  exactly the fields some adapter reads. Token counts are optional JavaScript numbers;
  a field that is \<open>undefined\<close> is \<open>None\<close>.
\<close>

record usage =
  inputTokens :: "int option"
  outputTokens :: "int option"
  totalTokens :: "int option"

text \<open>
  The payload of an \<open>error\<close> part is an arbitrary JavaScript value, and the adapters
  only apply the built-in \<open>String(...)\<close> to it. \<open>js_value\<close> holds the values on which
  that conversion returns: strings, Error instances (with their \<open>name\<close> and \<open>message\<close>
  strings), \<open>undefined\<close>, \<open>null\<close>, booleans, plain objects (whatever their fields, a
  \<open>name\<close> and a \<open>message\<close> included), and any other value (a number, an array, an
  object with a \<open>toString\<close> of its own), which \<open>JsOther\<close> gives by the string its
  conversion returns. A value on which the conversion raises (an object with no usable
  \<open>toString\<close> or \<open>valueOf\<close>, such as \<open>Object.create(null)\<close>) makes the adapter call itself
  raise; it is not a value of this type, and nothing below is about it.
\<close>

datatype js_value =
    JsUndefined
  | JsNull
  | JsBool bool
  | JsString string
  | JsError string string
  | JsPlainObject
  | JsOther string

text \<open>
  \<open>String(v)\<close> of ECMAScript: a string is returned as it is; an Error instance goes
  through \<open>Error.prototype.toString\<close>, which returns the message when the name is empty,
  the name when the message is empty, and \<open>name + ": " + message\<close> otherwise; a plain
  object goes through \<open>Object.prototype.toString\<close>.
\<close>

fun js_String :: "js_value \<Rightarrow> string" where
  "js_String JsUndefined = ''undefined''"
| "js_String JsNull = ''null''"
| "js_String (JsBool b) = (if b then ''true'' else ''false'')"
| "js_String (JsString s) = s"
| "js_String (JsError n m) =
     (if n = [] then m else if m = [] then n else n @ '': '' @ m)"
| "js_String JsPlainObject = ''[object Object]''"
| "js_String (JsOther s) = s"

text \<open>
  \<open>'j\<close> is the type of JSON values (the \<open>input\<close> of a complete tool call, the parsed
  \<open>args\<close> of a function-call part). \<open>JSON.stringify\<close> and \<open>JSON.parse\<close> are built-ins
  of the language and are parameters of the functions that call them.
  \<open>OtherChunk t\<close> stands for a part whose \<open>type\<close> field \<open>t\<close> is outside the closed
  vocabulary (the \<open>default\<close> branch of each adapter).
\<close>

datatype 'j chunk =
    TextStart string
  | TextDelta string string
  | TextEnd string
  | ReasoningStart string
  | ReasoningDelta string string
  | ReasoningEnd string
  | ToolInputStart string string
  | ToolInputDelta string string
  | ToolInputEnd string
  | ToolCall string string 'j
  | ToolResult string
  | ToolError string
  | FinishStep usage string
  | Finish string usage
  | Start
  | StartStep
  | Abort
  | ErrorChunk js_value
  | Source
  | File
  | Raw
  | OtherChunk string

text \<open>
  The three result types of the source have the same shape: an output
  (\<open>events\<close>, \<open>chunk\<close> or \<open>response\<close>), \<open>skip\<close>, or \<open>error\<close> with a message.
\<close>

datatype 'a ChunkConversionResult =
    Out 'a
  | Skip
  | Error string

section \<open>Adapter A: src/anthropic/messages/chunk-from-ai.ts\<close>

text \<open>
  A JavaScript \<open>Map\<close> keeps its keys in insertion order; \<open>get\<close> is \<^const>\<open>map_of\<close> and
  \<open>set\<close> is \<^const>\<open>AList.update\<close> (replace in place, or append at the end).
\<close>

record anthropic_context =
  anth_id :: string
  anth_model :: string
  contentBlockIndex :: nat
  anth_toolCallIndices :: "(string \<times> nat) list"
  toolCallInputs :: "(string \<times> string) list"
  messageStarted :: bool
  anth_inputTokens :: int
  anth_outputTokens :: int

definition createChunkConversionContext_anthropic :: "string \<Rightarrow> string \<Rightarrow> anthropic_context" where
  "createChunkConversionContext_anthropic i m =
     \<lparr> anth_id = i, anth_model = m, contentBlockIndex = 0, anth_toolCallIndices = [],
       toolCallInputs = [], messageStarted = False, anth_inputTokens = 0,
       anth_outputTokens = 0 \<rparr>"

text \<open>
  Content blocks and deltas. The fields the adapter always fills with a constant are left
  out: \<open>citations: null\<close> of a text block, \<open>input: {}\<close> of a tool_use block.
\<close>

datatype content_block =
    Text_block string
  | Thinking_block string string
  | Tool_use_block string string

datatype block_delta =
    Text_delta string
  | Thinking_delta string
  | Input_json_delta string

text \<open>
  \<open>Message_start id model input_tokens\<close>: the other fields of the message are constants.
  \<open>Message_delta stop_reason output_tokens input_tokens\<close>: \<open>stop_sequence\<close> and the cache
  fields are \<open>null\<close>.
\<close>

datatype RawMessageStreamEvent =
    Message_start string string int
  | Content_block_start nat content_block
  | Content_block_delta nat block_delta
  | Content_block_stop nat
  | Message_delta string int int
  | Message_stop

definition createMessageStartEvent :: "anthropic_context \<Rightarrow> RawMessageStreamEvent" where
  "createMessageStartEvent context =
     Message_start (anth_id context) (anth_model context) (anth_inputTokens context)"

definition createContentBlockStartEvent :: "nat \<Rightarrow> content_block \<Rightarrow> RawMessageStreamEvent" where
  "createContentBlockStartEvent index contentBlock = Content_block_start index contentBlock"

definition convertStopReason :: "string \<Rightarrow> string" where
  "convertStopReason finishReason =
     (if finishReason = ''stop'' then ''end_turn''
      else if finishReason = ''length'' then ''max_tokens''
      else if finishReason = ''tool-calls'' then ''tool_use''
      else if finishReason = ''content-filter'' then ''refusal''
      else ''end_turn'')"

text \<open>
  The block \<open>if (!context.messageStarted) { events.push(createMessageStartEvent(context));
  context.messageStarted = true; }\<close>, which six cases of the adapter start with. It
  returns the events pushed and the context.
\<close>

definition ensureMessageStarted ::
  "anthropic_context \<Rightarrow> RawMessageStreamEvent list \<times> anthropic_context" where
  "ensureMessageStarted context =
     (if \<not> messageStarted context
      then ([createMessageStartEvent context], context\<lparr>messageStarted := True\<rparr>)
      else ([], context))"

text \<open>The \<open>??\<close> operator on an optional number.\<close>

definition nullish :: "'a option \<Rightarrow> 'a \<Rightarrow> 'a" where
  "nullish v d = (case v of Some x \<Rightarrow> x | None \<Rightarrow> d)"

text \<open>The template string \<open>`Unknown tool call id: ${chunk.id}`\<close>.\<close>

definition unknownToolCall :: "string \<Rightarrow> string" where
  "unknownToolCall i = ''Unknown tool call id: '' @ i"

fun anthropicChunkFromAiSDK ::
  "('j \<Rightarrow> string) \<Rightarrow> 'j chunk \<Rightarrow> anthropic_context
     \<Rightarrow> RawMessageStreamEvent list ChunkConversionResult \<times> anthropic_context" where
  "anthropicChunkFromAiSDK stringify (TextStart i) context =
     (let (events, context) = ensureMessageStarted context;
          events = events @ [createContentBlockStartEvent (contentBlockIndex context)
                               (Text_block [])]
      in (if events \<noteq> [] then Out events else Skip, context))"
| "anthropicChunkFromAiSDK stringify (TextDelta i text) context =
     (Out [Content_block_delta (contentBlockIndex context) (Text_delta text)], context)"
| "anthropicChunkFromAiSDK stringify (TextEnd i) context =
     (Out [Content_block_stop (contentBlockIndex context)],
      context\<lparr>contentBlockIndex := contentBlockIndex context + 1\<rparr>)"
| "anthropicChunkFromAiSDK stringify (ReasoningStart i) context =
     (let (events, context) = ensureMessageStarted context;
          events = events @ [createContentBlockStartEvent (contentBlockIndex context)
                               (Thinking_block [] [])]
      in (Out events, context))"
| "anthropicChunkFromAiSDK stringify (ReasoningDelta i text) context =
     (Out [Content_block_delta (contentBlockIndex context) (Thinking_delta text)], context)"
| "anthropicChunkFromAiSDK stringify (ReasoningEnd i) context =
     (Out [Content_block_stop (contentBlockIndex context)],
      context\<lparr>contentBlockIndex := contentBlockIndex context + 1\<rparr>)"
| "anthropicChunkFromAiSDK stringify (ToolInputStart i toolName) context =
     (let (events, context) = ensureMessageStarted context;
          context = context\<lparr>anth_toolCallIndices :=
                      AList.update i (contentBlockIndex context) (anth_toolCallIndices context)\<rparr>;
          context = context\<lparr>toolCallInputs := AList.update i [] (toolCallInputs context)\<rparr>;
          events = events @ [createContentBlockStartEvent (contentBlockIndex context)
                               (Tool_use_block i toolName)]
      in (Out events, context))"
| "anthropicChunkFromAiSDK stringify (ToolInputDelta i delta) context =
     (case map_of (anth_toolCallIndices context) i of
        None \<Rightarrow> (Error (unknownToolCall i), context)
      | Some index \<Rightarrow>
          (let currentInput = nullish (map_of (toolCallInputs context) i) [];
               context = context\<lparr>toolCallInputs :=
                           AList.update i (currentInput @ delta) (toolCallInputs context)\<rparr>
           in (Out [Content_block_delta index (Input_json_delta delta)], context)))"
| "anthropicChunkFromAiSDK stringify (ToolInputEnd i) context =
     (case map_of (anth_toolCallIndices context) i of
        None \<Rightarrow> (Error (unknownToolCall i), context)
      | Some index \<Rightarrow>
          (Out [Content_block_stop index],
           context\<lparr>contentBlockIndex := contentBlockIndex context + 1\<rparr>))"
| "anthropicChunkFromAiSDK stringify (ToolCall toolCallId toolName input) context =
     (let (events, context) = ensureMessageStarted context;
          index = contentBlockIndex context;
          context = context\<lparr>anth_toolCallIndices :=
                      AList.update toolCallId index (anth_toolCallIndices context)\<rparr>;
          events = events @ [createContentBlockStartEvent index (Tool_use_block toolCallId toolName)];
          inputJson = stringify input;
          events = events @ [Content_block_delta index (Input_json_delta inputJson)];
          events = events @ [Content_block_stop index];
          context = context\<lparr>contentBlockIndex := contentBlockIndex context + 1\<rparr>
      in (Out events, context))"
| "anthropicChunkFromAiSDK stringify (ToolResult i) context = (Skip, context)"
| "anthropicChunkFromAiSDK stringify (ToolError i) context = (Skip, context)"
| "anthropicChunkFromAiSDK stringify (FinishStep u finishReason) context =
     (let context = (case inputTokens u of
                       Some n \<Rightarrow> context\<lparr>anth_inputTokens := n\<rparr> | None \<Rightarrow> context);
          context = (case outputTokens u of
                       Some n \<Rightarrow> context\<lparr>anth_outputTokens := n\<rparr> | None \<Rightarrow> context)
      in (Skip, context))"
| "anthropicChunkFromAiSDK stringify (Finish finishReason totalUsage) context =
     (let (events, context) = ensureMessageStarted context;
          events = events @ [Message_delta (convertStopReason finishReason)
                               (nullish (outputTokens totalUsage) (anth_outputTokens context))
                               (nullish (inputTokens totalUsage) (anth_inputTokens context))];
          events = events @ [Message_stop]
      in (Out events, context))"
| "anthropicChunkFromAiSDK stringify Start context =
     (let (events, context) = ensureMessageStarted context
      in (if events \<noteq> [] then Out events else Skip, context))"
| "anthropicChunkFromAiSDK stringify StartStep context = (Skip, context)"
| "anthropicChunkFromAiSDK stringify Abort context = (Skip, context)"
| "anthropicChunkFromAiSDK stringify (ErrorChunk e) context = (Error (js_String e), context)"
| "anthropicChunkFromAiSDK stringify Source context = (Skip, context)"
| "anthropicChunkFromAiSDK stringify File context = (Skip, context)"
| "anthropicChunkFromAiSDK stringify Raw context = (Skip, context)"
| "anthropicChunkFromAiSDK stringify (OtherChunk t) context =
     (Error (''Unknown chunk type: '' @ t), context)"

section \<open>Adapter B: src/openai/chat-completion/chunk-from-ai.ts\<close>

record openai_context =
  oai_id :: string
  oai_model :: string
  created :: int
  oai_toolCallIndices :: "(string \<times> nat) list"
  nextToolCallIndex :: nat

text \<open>
  The constructor with \<open>created\<close> given. Without it the source reads the clock once
  (\<open>Math.floor(Date.now() / 1000)\<close>); the caller of the model passes that reading.
\<close>

definition createChunkConversionContext_openai :: "string \<Rightarrow> string \<Rightarrow> int \<Rightarrow> openai_context" where
  "createChunkConversionContext_openai i m c =
     \<lparr> oai_id = i, oai_model = m, created = c, oai_toolCallIndices = [],
       nextToolCallIndex = 0 \<rparr>"

text \<open>
  One entry of \<open>delta.tool_calls\<close>; the fields a continuation entry leaves out are
  \<open>None\<close>.
\<close>

record tool_call_entry =
  tc_index :: nat
  tc_id :: "string option"
  tc_type :: "string option"
  tc_function_name :: "string option"
  tc_function_arguments :: string

record openai_delta =
  delta_role :: "string option"
  delta_content :: "string option"
  delta_tool_calls :: "tool_call_entry list option"

record openai_usage =
  prompt_tokens :: int
  completion_tokens :: int
  total_tokens :: int

text \<open>A choice of a chunk; \<open>logprobs\<close> is always \<open>null\<close>.\<close>

record chunk_choice =
  choice_index :: nat
  choice_delta :: openai_delta
  finish_reason :: "string option"

record ChatCompletionChunk =
  cc_id :: string
  cc_object :: string
  cc_created :: int
  cc_model :: string
  choices :: "chunk_choice list"
  cc_usage :: "openai_usage option"

definition emptyDelta :: openai_delta where
  "emptyDelta = \<lparr> delta_role = None, delta_content = None, delta_tool_calls = None \<rparr>"

definition createChunk ::
  "openai_context \<Rightarrow> openai_delta \<Rightarrow> string option \<Rightarrow> openai_usage option \<Rightarrow> ChatCompletionChunk" where
  "createChunk context d fr u =
     \<lparr> cc_id = oai_id context, cc_object = ''chat.completion.chunk'',
       cc_created = created context, cc_model = oai_model context,
       choices = [\<lparr> choice_index = 0, choice_delta = d, finish_reason = fr \<rparr>],
       cc_usage = u \<rparr>"

definition convertFinishReason_openai :: "string \<Rightarrow> string" where
  "convertFinishReason_openai finishReason =
     (if finishReason = ''stop'' then ''stop''
      else if finishReason = ''length'' then ''length''
      else if finishReason = ''content-filter'' then ''content_filter''
      else if finishReason = ''tool-calls'' then ''tool_calls''
      else ''stop'')"

definition convertUsage :: "usage \<Rightarrow> openai_usage" where
  "convertUsage u =
     \<lparr> prompt_tokens = nullish (inputTokens u) 0,
       completion_tokens = nullish (outputTokens u) 0,
       total_tokens = nullish (totalTokens u)
                        (nullish (inputTokens u) 0 + nullish (outputTokens u) 0) \<rparr>"

text \<open>
  The block of the \<open>tool-input-start\<close> and \<open>tool-call\<close> cases that gets the index of an
  id or assigns the next one (\<open>index = context.nextToolCallIndex++\<close>).
\<close>

definition getOrAssignIndex :: "string \<Rightarrow> openai_context \<Rightarrow> nat \<times> openai_context" where
  "getOrAssignIndex i context =
     (case map_of (oai_toolCallIndices context) i of
        Some index \<Rightarrow> (index, context)
      | None \<Rightarrow>
          (let index = nextToolCallIndex context;
               context = context\<lparr>nextToolCallIndex := nextToolCallIndex context + 1\<rparr>;
               context = context\<lparr>oai_toolCallIndices :=
                           AList.update i index (oai_toolCallIndices context)\<rparr>
           in (index, context)))"

fun openaiChunkFromAiSDK ::
  "('j \<Rightarrow> string) \<Rightarrow> 'j chunk \<Rightarrow> openai_context
     \<Rightarrow> ChatCompletionChunk ChunkConversionResult \<times> openai_context" where
  "openaiChunkFromAiSDK stringify (TextDelta i text) context =
     (Out (createChunk context (emptyDelta\<lparr>delta_content := Some text\<rparr>) None None), context)"
| "openaiChunkFromAiSDK stringify (TextStart i) context =
     (Out (createChunk context
             (emptyDelta\<lparr>delta_role := Some ''assistant'', delta_content := Some []\<rparr>)
             None None), context)"
| "openaiChunkFromAiSDK stringify (TextEnd i) context = (Skip, context)"
| "openaiChunkFromAiSDK stringify (ReasoningDelta i text) context = (Skip, context)"
| "openaiChunkFromAiSDK stringify (ReasoningStart i) context = (Skip, context)"
| "openaiChunkFromAiSDK stringify (ReasoningEnd i) context = (Skip, context)"
| "openaiChunkFromAiSDK stringify (ToolInputStart i toolName) context =
     (let (index, context) = getOrAssignIndex i context
      in (Out (createChunk context
                 (emptyDelta\<lparr>delta_tool_calls := Some
                    [\<lparr> tc_index = index, tc_id = Some i, tc_type = Some ''function'',
                       tc_function_name = Some toolName, tc_function_arguments = [] \<rparr>]\<rparr>)
                 None None), context))"
| "openaiChunkFromAiSDK stringify (ToolInputDelta i delta) context =
     (case map_of (oai_toolCallIndices context) i of
        None \<Rightarrow> (Error (unknownToolCall i), context)
      | Some index \<Rightarrow>
          (Out (createChunk context
                  (emptyDelta\<lparr>delta_tool_calls := Some
                     [\<lparr> tc_index = index, tc_id = None, tc_type = None,
                        tc_function_name = None, tc_function_arguments = delta \<rparr>]\<rparr>)
                  None None), context))"
| "openaiChunkFromAiSDK stringify (ToolInputEnd i) context = (Skip, context)"
| "openaiChunkFromAiSDK stringify (ToolCall toolCallId toolName input) context =
     (let (index, context) = getOrAssignIndex toolCallId context
      in (Out (createChunk context
                 (emptyDelta\<lparr>delta_tool_calls := Some
                    [\<lparr> tc_index = index, tc_id = Some toolCallId, tc_type = Some ''function'',
                       tc_function_name = Some toolName,
                       tc_function_arguments = stringify input \<rparr>]\<rparr>)
                 None None), context))"
| "openaiChunkFromAiSDK stringify (ToolResult i) context = (Skip, context)"
| "openaiChunkFromAiSDK stringify (ToolError i) context = (Skip, context)"
| "openaiChunkFromAiSDK stringify (FinishStep u finishReason) context =
     (Out (createChunk context emptyDelta (Some (convertFinishReason_openai finishReason))
             (Some (convertUsage u))), context)"
| "openaiChunkFromAiSDK stringify (Finish finishReason totalUsage) context =
     (Out (createChunk context emptyDelta (Some (convertFinishReason_openai finishReason))
             (Some (convertUsage totalUsage))), context)"
| "openaiChunkFromAiSDK stringify Start context = (Skip, context)"
| "openaiChunkFromAiSDK stringify StartStep context = (Skip, context)"
| "openaiChunkFromAiSDK stringify Abort context = (Skip, context)"
| "openaiChunkFromAiSDK stringify (ErrorChunk e) context = (Error (js_String e), context)"
| "openaiChunkFromAiSDK stringify Source context = (Skip, context)"
| "openaiChunkFromAiSDK stringify File context = (Skip, context)"
| "openaiChunkFromAiSDK stringify Raw context = (Skip, context)"
| "openaiChunkFromAiSDK stringify (OtherChunk t) context =
     (Error (''Unknown chunk type: '' @ t), context)"

section \<open>Adapter C: the full-snapshot adapter (googleChunkFromAiSDK)\<close>

record func_call =
  fc_name :: string
  fc_args :: string

record google_context =
  responseId :: string
  modelVersion :: string
  accumulatedText :: string
  accumulatedFunctionCalls :: "(string \<times> func_call) list"
  goo_inputTokens :: int
  goo_outputTokens :: int

definition createChunkConversionContext_google :: "string \<Rightarrow> string \<Rightarrow> google_context" where
  "createChunkConversionContext_google r m =
     \<lparr> responseId = r, modelVersion = m, accumulatedText = [],
       accumulatedFunctionCalls = [], goo_inputTokens = 0, goo_outputTokens = 0 \<rparr>"

text \<open>A part is \<open>{ text }\<close> or \<open>{ functionCall: { id, name, args } }\<close>.\<close>

datatype 'j GooglePart =
    TextPart string
  | FunctionCallPart string string 'j

record 'j GoogleContent =
  role :: string
  parts :: "'j GooglePart list"

record usageMetadata =
  promptTokenCount :: int
  candidatesTokenCount :: int
  totalTokenCount :: int

text \<open>The response has one candidate: its content and its optional finish reason.\<close>

record 'j GenerateContentResponse =
  resp_responseId :: string
  resp_modelVersion :: string
  candidate_content :: "'j GoogleContent"
  candidate_finishReason :: "string option"
  resp_usageMetadata :: usageMetadata

text \<open>
  The body of the \<open>for\<close> loop of \<open>buildContent\<close> up to the \<open>push\<close>: \<open>args\<close> starts as the
  empty object, is replaced by \<open>JSON.parse(funcCall.args)\<close> when that string is not
  empty, and is the empty object again when the parse throws (\<open>parse\<close> returns \<open>None\<close>).
\<close>

definition parseArgs :: "(string \<Rightarrow> 'j option) \<Rightarrow> 'j \<Rightarrow> string \<Rightarrow> 'j" where
  "parseArgs parse emptyObject a =
     (if a \<noteq> [] then (case parse a of Some v \<Rightarrow> v | None \<Rightarrow> emptyObject)
      else emptyObject)"

text \<open>The \<open>for\<close> loop over the entries of the map, pushing one part per entry.\<close>

fun pushFunctionCalls ::
  "(string \<Rightarrow> 'j option) \<Rightarrow> 'j \<Rightarrow> (string \<times> func_call) list \<Rightarrow> 'j GooglePart list
     \<Rightarrow> 'j GooglePart list" where
  "pushFunctionCalls parse emptyObject [] ps = ps"
| "pushFunctionCalls parse emptyObject ((i, funcCall) # rest) ps =
     pushFunctionCalls parse emptyObject rest
       (ps @ [FunctionCallPart i (fc_name funcCall)
                (parseArgs parse emptyObject (fc_args funcCall))])"

definition buildContent ::
  "(string \<Rightarrow> 'j option) \<Rightarrow> 'j \<Rightarrow> google_context \<Rightarrow> 'j GoogleContent" where
  "buildContent parse emptyObject context =
     (let ps = [];
          ps = (if accumulatedText context \<noteq> [] then ps @ [TextPart (accumulatedText context)]
                else ps);
          ps = pushFunctionCalls parse emptyObject (accumulatedFunctionCalls context) ps;
          ps = (if length ps = 0 then ps @ [TextPart []] else ps)
      in \<lparr> role = ''model'', parts = ps \<rparr>)"

definition buildIncrementalResponse ::
  "(string \<Rightarrow> 'j option) \<Rightarrow> 'j \<Rightarrow> google_context \<Rightarrow> 'j GenerateContentResponse" where
  "buildIncrementalResponse parse emptyObject context =
     \<lparr> resp_responseId = responseId context,
       resp_modelVersion = modelVersion context,
       candidate_content = buildContent parse emptyObject context,
       candidate_finishReason = None,
       resp_usageMetadata =
         \<lparr> promptTokenCount = goo_inputTokens context,
           candidatesTokenCount = goo_outputTokens context,
           totalTokenCount = goo_inputTokens context + goo_outputTokens context \<rparr> \<rparr>"

definition convertFinishReason_google :: "string \<Rightarrow> string" where
  "convertFinishReason_google finishReason =
     (if finishReason = ''stop'' then ''STOP''
      else if finishReason = ''length'' then ''MAX_TOKENS''
      else if finishReason = ''content-filter'' then ''SAFETY''
      else if finishReason = ''tool-calls'' then ''STOP''
      else ''OTHER'')"

definition buildFinalResponse ::
  "(string \<Rightarrow> 'j option) \<Rightarrow> 'j \<Rightarrow> google_context \<Rightarrow> string \<Rightarrow> usage
     \<Rightarrow> 'j GenerateContentResponse" where
  "buildFinalResponse parse emptyObject context finishReason totalUsage =
     (let inTok = nullish (inputTokens totalUsage) (goo_inputTokens context);
          outTok = nullish (outputTokens totalUsage) (goo_outputTokens context)
      in \<lparr> resp_responseId = responseId context,
           resp_modelVersion = modelVersion context,
           candidate_content = buildContent parse emptyObject context,
           candidate_finishReason = Some (convertFinishReason_google finishReason),
           resp_usageMetadata =
             \<lparr> promptTokenCount = inTok,
               candidatesTokenCount = outTok,
               totalTokenCount = nullish (totalTokens totalUsage) (inTok + outTok) \<rparr> \<rparr>)"

fun googleChunkFromAiSDK ::
  "('j \<Rightarrow> string) \<Rightarrow> (string \<Rightarrow> 'j option) \<Rightarrow> 'j \<Rightarrow> 'j chunk \<Rightarrow> google_context
     \<Rightarrow> 'j GenerateContentResponse ChunkConversionResult \<times> google_context" where
  "googleChunkFromAiSDK stringify parse eo (TextStart i) context = (Skip, context)"
| "googleChunkFromAiSDK stringify parse eo (TextDelta i text) context =
     (let context = context\<lparr>accumulatedText := accumulatedText context @ text\<rparr>
      in (Out (buildIncrementalResponse parse eo context), context))"
| "googleChunkFromAiSDK stringify parse eo (TextEnd i) context = (Skip, context)"
| "googleChunkFromAiSDK stringify parse eo (ReasoningStart i) context = (Skip, context)"
| "googleChunkFromAiSDK stringify parse eo (ReasoningDelta i text) context = (Skip, context)"
| "googleChunkFromAiSDK stringify parse eo (ReasoningEnd i) context = (Skip, context)"
| "googleChunkFromAiSDK stringify parse eo (ToolInputStart i toolName) context =
     (Skip, context\<lparr>accumulatedFunctionCalls :=
              AList.update i \<lparr> fc_name = toolName, fc_args = [] \<rparr>
                (accumulatedFunctionCalls context)\<rparr>)"
| "googleChunkFromAiSDK stringify parse eo (ToolInputDelta i delta) context =
     (case map_of (accumulatedFunctionCalls context) i of
        None \<Rightarrow> (Error (unknownToolCall i), context)
      | Some funcCall \<Rightarrow>
          (let context = context\<lparr>accumulatedFunctionCalls :=
                           AList.update i (funcCall\<lparr>fc_args := fc_args funcCall @ delta\<rparr>)
                             (accumulatedFunctionCalls context)\<rparr>
           in (Out (buildIncrementalResponse parse eo context), context)))"
| "googleChunkFromAiSDK stringify parse eo (ToolInputEnd i) context =
     (Out (buildIncrementalResponse parse eo context), context)"
| "googleChunkFromAiSDK stringify parse eo (ToolCall toolCallId toolName input) context =
     (let context = context\<lparr>accumulatedFunctionCalls :=
                      AList.update toolCallId \<lparr> fc_name = toolName, fc_args = stringify input \<rparr>
                        (accumulatedFunctionCalls context)\<rparr>
      in (Out (buildIncrementalResponse parse eo context), context))"
| "googleChunkFromAiSDK stringify parse eo (ToolResult i) context = (Skip, context)"
| "googleChunkFromAiSDK stringify parse eo (ToolError i) context = (Skip, context)"
| "googleChunkFromAiSDK stringify parse eo (FinishStep u finishReason) context =
     (let context = (case inputTokens u of
                       Some n \<Rightarrow> context\<lparr>goo_inputTokens := n\<rparr> | None \<Rightarrow> context);
          context = (case outputTokens u of
                       Some n \<Rightarrow> context\<lparr>goo_outputTokens := n\<rparr> | None \<Rightarrow> context)
      in (Skip, context))"
| "googleChunkFromAiSDK stringify parse eo (Finish finishReason totalUsage) context =
     (Out (buildFinalResponse parse eo context finishReason totalUsage), context)"
| "googleChunkFromAiSDK stringify parse eo Start context = (Skip, context)"
| "googleChunkFromAiSDK stringify parse eo StartStep context = (Skip, context)"
| "googleChunkFromAiSDK stringify parse eo Abort context = (Skip, context)"
| "googleChunkFromAiSDK stringify parse eo (ErrorChunk e) context = (Error (js_String e), context)"
| "googleChunkFromAiSDK stringify parse eo Source context = (Skip, context)"
| "googleChunkFromAiSDK stringify parse eo File context = (Skip, context)"
| "googleChunkFromAiSDK stringify parse eo Raw context = (Skip, context)"
| "googleChunkFromAiSDK stringify parse eo (OtherChunk t) context =
     (Error (''Unknown chunk type: '' @ t), context)"

section \<open>Driving an adapter over a stream\<close>

text \<open>
  A stream is converted by calling the adapter once per part, in order, on one context
  that each call may mutate. \<open>feed f s cs\<close> is the list of the results, one per part,
  and the context after the last call.
\<close>

fun feed :: "('c \<Rightarrow> 's \<Rightarrow> 'r \<times> 's) \<Rightarrow> 's \<Rightarrow> 'c list \<Rightarrow> 'r list \<times> 's" where
  "feed f s [] = ([], s)"
| "feed f s (c # cs) =
     (let (r, s') = f c s; (rs, s'') = feed f s' cs in (r # rs, s''))"

text \<open>
  The loop of the source's tests for adapter A: the events of every \<open>events\<close> result are
  appended to one list (\<open>skip\<close> and \<open>error\<close> results add nothing).
\<close>

fun resultEvents :: "'a list ChunkConversionResult \<Rightarrow> 'a list" where
  "resultEvents (Out es) = es"
| "resultEvents Skip = []"
| "resultEvents (Error m) = []"

definition allEvents ::
  "('j \<Rightarrow> string) \<Rightarrow> anthropic_context \<Rightarrow> 'j chunk list \<Rightarrow> RawMessageStreamEvent list" where
  "allEvents stringify context cs =
     concat (map resultEvents (fst (feed (anthropicChunkFromAiSDK stringify) context cs)))"

section \<open>Predicates on streams\<close>

text \<open>
  A part introduces a tool-call id when it is the \<open>tool-input-start\<close> or the complete
  \<open>tool-call\<close> of that id.
\<close>

fun introduces :: "string \<Rightarrow> 'j chunk \<Rightarrow> bool" where
  "introduces i (ToolInputStart j n) = (i = j)"
| "introduces i (ToolCall j n inp) = (i = j)"
| "introduces i c = False"

text \<open>Sample stand-ins for \<open>JSON.parse\<close>, used to run the adapters on concrete streams:
  one that rejects every text, and one that accepts exactly the text \<open>{}\<close>.\<close>

definition parseNothing :: "string \<Rightarrow> string option" where
  "parseNothing s = None"

definition parseEmptyObject :: "string \<Rightarrow> string option" where
  "parseEmptyObject s = (if s = ''{}'' then Some ''{}'' else None)"

text \<open>
  The parts on which adapter A emits message_start when it has not yet done so, and the
  parts that continue or close a content block without opening one.
\<close>

fun opensEnvelope :: "'j chunk \<Rightarrow> bool" where
  "opensEnvelope (TextStart i) = True"
| "opensEnvelope (ReasoningStart i) = True"
| "opensEnvelope (ToolInputStart i n) = True"
| "opensEnvelope (ToolCall i n inp) = True"
| "opensEnvelope Start = True"
| "opensEnvelope (Finish r u) = True"
| "opensEnvelope c = False"

fun continuesBlock :: "'j chunk \<Rightarrow> bool" where
  "continuesBlock (TextDelta i t) = True"
| "continuesBlock (TextEnd i) = True"
| "continuesBlock (ReasoningDelta i t) = True"
| "continuesBlock (ReasoningEnd i) = True"
| "continuesBlock (ToolInputDelta i d) = True"
| "continuesBlock (ToolInputEnd i) = True"
| "continuesBlock c = False"

fun isMessageStart :: "RawMessageStreamEvent \<Rightarrow> bool" where
  "isMessageStart (Message_start i m t) = True"
| "isMessageStart e = False"

fun isContentBlockStart :: "RawMessageStreamEvent \<Rightarrow> bool" where
  "isContentBlockStart (Content_block_start n b) = True"
| "isContentBlockStart e = False"

fun isContentBlockEvent :: "RawMessageStreamEvent \<Rightarrow> bool" where
  "isContentBlockEvent (Content_block_start n b) = True"
| "isContentBlockEvent (Content_block_delta n d) = True"
| "isContentBlockEvent (Content_block_stop n) = True"
| "isContentBlockEvent e = False"

text \<open>
  Spans of the input. A stream is lifecycle-ordered when, for every id, the start of a
  span comes before its deltas and they before its end, and no id is opened while a
  span with that id is open; \<open>opn\<close> lists the open spans. A complete \<open>tool-call\<close> is a
  span of its own that opens and closes at once.
\<close>

datatype span_kind = TextSpan | ReasoningSpan | ToolSpan

fun lifecycleOrdered :: "(span_kind \<times> string) list \<Rightarrow> 'j chunk list \<Rightarrow> bool" where
  "lifecycleOrdered opn [] = True"
| "lifecycleOrdered opn (TextStart i # cs) =
     (i \<notin> snd ` set opn \<and> lifecycleOrdered ((TextSpan, i) # opn) cs)"
| "lifecycleOrdered opn (TextDelta i t # cs) =
     ((TextSpan, i) \<in> set opn \<and> lifecycleOrdered opn cs)"
| "lifecycleOrdered opn (TextEnd i # cs) =
     ((TextSpan, i) \<in> set opn \<and> lifecycleOrdered (removeAll (TextSpan, i) opn) cs)"
| "lifecycleOrdered opn (ReasoningStart i # cs) =
     (i \<notin> snd ` set opn \<and> lifecycleOrdered ((ReasoningSpan, i) # opn) cs)"
| "lifecycleOrdered opn (ReasoningDelta i t # cs) =
     ((ReasoningSpan, i) \<in> set opn \<and> lifecycleOrdered opn cs)"
| "lifecycleOrdered opn (ReasoningEnd i # cs) =
     ((ReasoningSpan, i) \<in> set opn \<and> lifecycleOrdered (removeAll (ReasoningSpan, i) opn) cs)"
| "lifecycleOrdered opn (ToolInputStart i n # cs) =
     (i \<notin> snd ` set opn \<and> lifecycleOrdered ((ToolSpan, i) # opn) cs)"
| "lifecycleOrdered opn (ToolInputDelta i d # cs) =
     ((ToolSpan, i) \<in> set opn \<and> lifecycleOrdered opn cs)"
| "lifecycleOrdered opn (ToolInputEnd i # cs) =
     ((ToolSpan, i) \<in> set opn \<and> lifecycleOrdered (removeAll (ToolSpan, i) opn) cs)"
| "lifecycleOrdered opn (ToolCall i n inp # cs) =
     (i \<notin> snd ` set opn \<and> lifecycleOrdered opn cs)"
| "lifecycleOrdered opn (c # cs) = lifecycleOrdered opn cs"

text \<open>
  A lifecycle-ordered stream whose spans do not overlap: a span opens only when none is
  open (\<open>cur\<close> is the open span, if any).
\<close>

fun sequentialSpans :: "(span_kind \<times> string) option \<Rightarrow> 'j chunk list \<Rightarrow> bool" where
  "sequentialSpans cur [] = True"
| "sequentialSpans cur (TextStart i # cs) =
     (cur = None \<and> sequentialSpans (Some (TextSpan, i)) cs)"
| "sequentialSpans cur (TextDelta i t # cs) =
     (cur = Some (TextSpan, i) \<and> sequentialSpans cur cs)"
| "sequentialSpans cur (TextEnd i # cs) =
     (cur = Some (TextSpan, i) \<and> sequentialSpans None cs)"
| "sequentialSpans cur (ReasoningStart i # cs) =
     (cur = None \<and> sequentialSpans (Some (ReasoningSpan, i)) cs)"
| "sequentialSpans cur (ReasoningDelta i t # cs) =
     (cur = Some (ReasoningSpan, i) \<and> sequentialSpans cur cs)"
| "sequentialSpans cur (ReasoningEnd i # cs) =
     (cur = Some (ReasoningSpan, i) \<and> sequentialSpans None cs)"
| "sequentialSpans cur (ToolInputStart i n # cs) =
     (cur = None \<and> sequentialSpans (Some (ToolSpan, i)) cs)"
| "sequentialSpans cur (ToolInputDelta i d # cs) =
     (cur = Some (ToolSpan, i) \<and> sequentialSpans cur cs)"
| "sequentialSpans cur (ToolInputEnd i # cs) =
     (cur = Some (ToolSpan, i) \<and> sequentialSpans None cs)"
| "sequentialSpans cur (ToolCall i n inp # cs) =
     (cur = None \<and> sequentialSpans None cs)"
| "sequentialSpans cur (c # cs) = sequentialSpans cur cs"

text \<open>
  The content-block events of an output are in order from index \<open>n\<close> when they form
  blocks \<open>n\<close>, \<open>n + 1\<close>, ... one after the other, each a start, then deltas, then a stop,
  all at the block's index (\<open>opn\<close>: block \<open>n\<close> is open; the last block may be unfinished).
  \<open>blockStartIndices\<close> lists the indices of the content_block_start events.
\<close>

fun blocksInOrder :: "nat \<Rightarrow> bool \<Rightarrow> RawMessageStreamEvent list \<Rightarrow> bool" where
  "blocksInOrder n opn [] = True"
| "blocksInOrder n opn (Content_block_start i b # es) =
     (\<not> opn \<and> i = n \<and> blocksInOrder n True es)"
| "blocksInOrder n opn (Content_block_delta i d # es) =
     (opn \<and> i = n \<and> blocksInOrder n True es)"
| "blocksInOrder n opn (Content_block_stop i # es) =
     (opn \<and> i = n \<and> blocksInOrder (Suc n) False es)"
| "blocksInOrder n opn (e # es) = blocksInOrder n opn es"

fun blockStartIndices :: "RawMessageStreamEvent list \<Rightarrow> nat list" where
  "blockStartIndices [] = []"
| "blockStartIndices (Content_block_start i b # es) = i # blockStartIndices es"
| "blockStartIndices (e # es) = blockStartIndices es"


definition reportedIndices :: "ChatCompletionChunk \<Rightarrow> nat list" where
  "reportedIndices c =
     concat (map (\<lambda>ch. case delta_tool_calls (choice_delta ch) of
                          None \<Rightarrow> [] | Some es \<Rightarrow> map tc_index es) (choices c))"


text \<open>
  The text of a snapshot is the text of its text parts (there is at most one), and
  \<open>deltasFor i cs\<close> lists the fragments of the \<open>tool-input-delta\<close> parts of \<open>cs\<close> for
  the id \<open>i\<close>, in order.
\<close>

fun partText :: "'j GooglePart \<Rightarrow> string" where
  "partText (TextPart t) = t"
| "partText (FunctionCallPart i n a) = []"

definition snapshotText :: "'j GenerateContentResponse \<Rightarrow> string" where
  "snapshotText r = concat (map partText (parts (candidate_content r)))"

fun deltasFor :: "string \<Rightarrow> 'j chunk list \<Rightarrow> string list" where
  "deltasFor i [] = []"
| "deltasFor i (ToolInputDelta j d # cs) = (if j = i then d # deltasFor i cs else deltasFor i cs)"
| "deltasFor i (c # cs) = deltasFor i cs"

section \<open>Lemmas on the driver\<close>

lemma feed_Cons_fst [simp]:
  "fst (feed f s (c # cs)) = fst (f c s) # fst (feed f (snd (f c s)) cs)"
  by (simp add: split_beta)

lemma feed_Cons_snd [simp]:
  "snd (feed f s (c # cs)) = snd (feed f (snd (f c s)) cs)"
  by (simp add: split_beta)

declare feed.simps(2) [simp del]

lemma feed_snd_append:
  "snd (feed f s (xs @ ys)) = snd (feed f (snd (feed f s xs)) ys)"
  by (induction xs arbitrary: s) simp_all

lemma feed_fst_append:
  "fst (feed f s (xs @ ys)) = fst (feed f s xs) @ fst (feed f (snd (feed f s xs)) ys)"
  by (induction xs arbitrary: s) simp_all

lemma length_feed: "length (fst (feed f s cs)) = length cs"
  by (induction cs arbitrary: s) simp_all

section \<open>The text-only scenario of adapter A\<close>

text \<open>C7. The text-only scenario on a fresh context of adapter A gives the eight events
  message_start, content_block_start(0), three content_block_delta(0) with the three
  fragments, content_block_stop(0), message_delta with the stop reason of "stop", and
  message_stop.\<close>

theorem anthropic_text_scenario:
  "allEvents stringify (createChunkConversionContext_anthropic i m)
     [Start, StartStep, TextStart ''t1'', TextDelta ''t1'' ''Hello'',
      TextDelta ''t1'' '', '', TextDelta ''t1'' ''world!'', TextEnd ''t1'',
      FinishStep \<lparr>inputTokens = Some 10, outputTokens = Some 5, totalTokens = Some 15\<rparr> ''stop'',
      Finish ''stop'' \<lparr>inputTokens = Some 10, outputTokens = Some 5, totalTokens = Some 15\<rparr>]
   = [Message_start i m 0,
      Content_block_start 0 (Text_block []),
      Content_block_delta 0 (Text_delta ''Hello''),
      Content_block_delta 0 (Text_delta '', ''),
      Content_block_delta 0 (Text_delta ''world!''),
      Content_block_stop 0,
      Message_delta (convertStopReason ''stop'') 5 10,
      Message_stop]"
  by (simp add: allEvents_def createChunkConversionContext_anthropic_def
      ensureMessageStarted_def createMessageStartEvent_def createContentBlockStartEvent_def
      nullish_def)

section \<open>Unknown tool-call ids\<close>

lemma anthropic_keeps_unknown:
  "map_of (anth_toolCallIndices s) i = None \<Longrightarrow> \<not> introduces i c \<Longrightarrow>
   map_of (anth_toolCallIndices (snd (anthropicChunkFromAiSDK st c s))) i = None"
  by (cases c)
     (auto simp: ensureMessageStarted_def update_conv' Let_def split: option.splits prod.splits)

lemma openai_keeps_unknown:
  "map_of (oai_toolCallIndices s) i = None \<Longrightarrow> \<not> introduces i c \<Longrightarrow>
   map_of (oai_toolCallIndices (snd (openaiChunkFromAiSDK st c s))) i = None"
  by (cases c)
     (auto simp: getOrAssignIndex_def update_conv' Let_def split: option.splits prod.splits)

lemma google_keeps_unknown:
  "map_of (accumulatedFunctionCalls s) i = None \<Longrightarrow> \<not> introduces i c \<Longrightarrow>
   map_of (accumulatedFunctionCalls (snd (googleChunkFromAiSDK st p eo c s))) i = None"
  by (cases c)
     (auto simp: update_conv' Let_def split: option.splits prod.splits)

lemma feed_anthropic_unknown:
  "map_of (anth_toolCallIndices s) i = None \<Longrightarrow> \<forall>c\<in>set cs. \<not> introduces i c \<Longrightarrow>
   map_of (anth_toolCallIndices (snd (feed (anthropicChunkFromAiSDK st) s cs))) i = None"
proof (induction cs arbitrary: s)
  case Nil
  then show ?case by simp
next
  case (Cons c cs)
  have "map_of (anth_toolCallIndices (snd (anthropicChunkFromAiSDK st c s))) i = None"
    using Cons.prems by (simp add: anthropic_keeps_unknown)
  then show ?case
    using Cons.IH [of "snd (anthropicChunkFromAiSDK st c s)"] Cons.prems
    by simp
qed

lemma feed_openai_unknown:
  "map_of (oai_toolCallIndices s) i = None \<Longrightarrow> \<forall>c\<in>set cs. \<not> introduces i c \<Longrightarrow>
   map_of (oai_toolCallIndices (snd (feed (openaiChunkFromAiSDK st) s cs))) i = None"
proof (induction cs arbitrary: s)
  case Nil
  then show ?case by simp
next
  case (Cons c cs)
  have "map_of (oai_toolCallIndices (snd (openaiChunkFromAiSDK st c s))) i = None"
    using Cons.prems by (simp add: openai_keeps_unknown)
  then show ?case
    using Cons.IH [of "snd (openaiChunkFromAiSDK st c s)"] Cons.prems
    by simp
qed

lemma feed_google_unknown:
  "map_of (accumulatedFunctionCalls s) i = None \<Longrightarrow> \<forall>c\<in>set cs. \<not> introduces i c \<Longrightarrow>
   map_of (accumulatedFunctionCalls (snd (feed (googleChunkFromAiSDK st p eo) s cs))) i = None"
proof (induction cs arbitrary: s)
  case Nil
  then show ?case by simp
next
  case (Cons c cs)
  have "map_of (accumulatedFunctionCalls (snd (googleChunkFromAiSDK st p eo c s))) i = None"
    using Cons.prems by (simp add: google_keeps_unknown)
  then show ?case
    using Cons.IH [of "snd (googleChunkFromAiSDK st p eo c s)"] Cons.prems
    by simp
qed

text \<open>C2 (as amended). Let no part of the stream introduce the id. On the context
  reached from a fresh one, a tool-input-delta for the id is an error with message
  "Unknown tool call id: <id>" in all three adapters, and so is a tool-input-end in
  adapter A; on a tool-input-end adapter B skips and adapter C emits a snapshot of the
  accumulated state. Every one of these calls leaves the context as it was.\<close>

theorem unknown_tool_call_id:
  assumes "\<forall>c\<in>set cs. \<not> introduces i c"
    and a_def: "a = snd (feed (anthropicChunkFromAiSDK stringify)
                       (createChunkConversionContext_anthropic ida ma) cs)"
    and b_def: "b = snd (feed (openaiChunkFromAiSDK stringify)
                     (createChunkConversionContext_openai idb mb t) cs)"
    and g_def: "g = snd (feed (googleChunkFromAiSDK stringify parse eo)
                     (createChunkConversionContext_google idg mg) cs)"
  shows "anthropicChunkFromAiSDK stringify (ToolInputDelta i d) a
           = (Error (''Unknown tool call id: '' @ i), a)
       \<and> anthropicChunkFromAiSDK stringify (ToolInputEnd i) a
           = (Error (''Unknown tool call id: '' @ i), a)
       \<and> openaiChunkFromAiSDK stringify (ToolInputDelta i d) b
           = (Error (''Unknown tool call id: '' @ i), b)
       \<and> openaiChunkFromAiSDK stringify (ToolInputEnd i) b = (Skip, b)
       \<and> googleChunkFromAiSDK stringify parse eo (ToolInputDelta i d) g
           = (Error (''Unknown tool call id: '' @ i), g)
       \<and> googleChunkFromAiSDK stringify parse eo (ToolInputEnd i) g
           = (Out (buildIncrementalResponse parse eo g), g)"
proof -
  have "map_of (anth_toolCallIndices a) i = None"
    unfolding a_def using assms(1)
    by (intro feed_anthropic_unknown) (simp_all add: createChunkConversionContext_anthropic_def)
  moreover have "map_of (oai_toolCallIndices b) i = None"
    unfolding b_def using assms(1)
    by (intro feed_openai_unknown) (simp_all add: createChunkConversionContext_openai_def)
  moreover have "map_of (accumulatedFunctionCalls g) i = None"
    unfolding g_def using assms(1)
    by (intro feed_google_unknown) (simp_all add: createChunkConversionContext_google_def)
  ultimately show ?thesis
    by (simp add: unknownToolCall_def)
qed

theorem unknown_tool_call_id_witness:
  "fst (openaiChunkFromAiSDK id (ToolInputDelta ''b'' ''{'')
        (snd (feed (openaiChunkFromAiSDK id) (createChunkConversionContext_openai ''r'' ''m'' 0)
           [TextStart ''t'', ToolInputStart ''a'' ''f'']))) = Error ''Unknown tool call id: b''
   \<and> fst (googleChunkFromAiSDK id parseNothing [] (ToolInputEnd ''b'')
        (snd (feed (googleChunkFromAiSDK id parseNothing [])
           (createChunkConversionContext_google ''r'' ''m'')
           [TextStart ''t'', ToolInputStart ''a'' ''f''])))
       = Out (buildIncrementalResponse parseNothing []
           (snd (feed (googleChunkFromAiSDK id parseNothing [])
              (createChunkConversionContext_google ''r'' ''m'')
              [TextStart ''t'', ToolInputStart ''a'' ''f''])))"
proof -
  have h: "\<forall>c\<in>set [TextStart ''t'', ToolInputStart ''a'' ''f'' :: string chunk].
             \<not> introduces ''b'' c"
    by simp
  show ?thesis
    using unknown_tool_call_id [OF h refl refl refl, of id "''{''" "''r''" "''m''" "''r''" "''m''" 0
        parseNothing "[]" "''r''" "''m''"]
    by simp
qed

theorem unknown_end_not_error_counterexample:
  "fst (openaiChunkFromAiSDK id (ToolInputEnd ''call_9'')
          (createChunkConversionContext_openai ''chatcmpl-1'' ''gpt'' 0)) = Skip
   \<and> fst (openaiChunkFromAiSDK id (ToolInputEnd ''call_9'')
          (createChunkConversionContext_openai ''chatcmpl-1'' ''gpt'' 0))
       \<noteq> Error ''Unknown tool call id: call_9''"
  by simp

text \<open>C6. The three finish-reason conversions send stop, length, tool-calls and
  content-filter to the fixed labels of their vendor, and every other string to the
  vendor's default (end_turn, stop, OTHER).\<close>

theorem finish_reason_mapping:
  "convertStopReason ''stop'' = ''end_turn'' \<and> convertStopReason ''length'' = ''max_tokens''
   \<and> convertStopReason ''tool-calls'' = ''tool_use''
   \<and> convertStopReason ''content-filter'' = ''refusal''
   \<and> convertFinishReason_openai ''stop'' = ''stop''
   \<and> convertFinishReason_openai ''length'' = ''length''
   \<and> convertFinishReason_openai ''tool-calls'' = ''tool_calls''
   \<and> convertFinishReason_openai ''content-filter'' = ''content_filter''
   \<and> convertFinishReason_google ''stop'' = ''STOP''
   \<and> convertFinishReason_google ''length'' = ''MAX_TOKENS''
   \<and> convertFinishReason_google ''tool-calls'' = ''STOP''
   \<and> convertFinishReason_google ''content-filter'' = ''SAFETY''
   \<and> (r \<notin> {''stop'', ''length'', ''tool-calls'', ''content-filter''} \<longrightarrow>
        convertStopReason r = ''end_turn'' \<and> convertFinishReason_openai r = ''stop''
        \<and> convertFinishReason_google r = ''OTHER'')"
  by (simp add: convertStopReason_def convertFinishReason_openai_def
      convertFinishReason_google_def)

theorem finish_reason_mapping_witness:
  "''error'' \<notin> {''stop'', ''length'', ''tool-calls'', ''content-filter''}
   \<and> convertStopReason ''error'' = ''end_turn'' \<and> convertFinishReason_openai ''error'' = ''stop''
   \<and> convertFinishReason_google ''error'' = ''OTHER''"
  using finish_reason_mapping [of "''error''"] by simp


section \<open>The envelope of adapter A, the parts of adapter C, upstream errors\<close>

lemma allEvents_Nil [simp]: "allEvents st ctx [] = []"
  by (simp add: allEvents_def)

lemma allEvents_Cons [simp]:
  "allEvents st ctx (c # cs) =
     resultEvents (fst (anthropicChunkFromAiSDK st c ctx))
       @ allEvents st (snd (anthropicChunkFromAiSDK st c ctx)) cs"
  by (simp add: allEvents_def)

lemma started_step:
  "messageStarted ctx \<Longrightarrow>
   messageStarted (snd (anthropicChunkFromAiSDK st c ctx))
   \<and> (\<forall>e\<in>set (resultEvents (fst (anthropicChunkFromAiSDK st c ctx))). \<not> isMessageStart e)"
  by (cases c)
     (auto simp: ensureMessageStarted_def createContentBlockStartEvent_def Let_def
        split: option.splits)

lemma started_stream:
  "messageStarted ctx \<Longrightarrow> \<forall>e\<in>set (allEvents st ctx cs). \<not> isMessageStart e"
proof (induction cs arbitrary: ctx)
  case Nil
  then show ?case by simp
next
  case (Cons c cs)
  from started_step [OF Cons.prems, of st c] Cons.IH [of "snd (anthropicChunkFromAiSDK st c ctx)"]
  show ?case by auto
qed

lemma opening_step:
  "\<not> messageStarted ctx \<Longrightarrow> opensEnvelope c \<Longrightarrow>
   messageStarted (snd (anthropicChunkFromAiSDK st c ctx))
   \<and> (\<exists>rest. resultEvents (fst (anthropicChunkFromAiSDK st c ctx))
                 = createMessageStartEvent ctx # rest
              \<and> (\<forall>e\<in>set rest. \<not> isMessageStart e))"
  by (cases c)
     (auto simp: ensureMessageStarted_def createContentBlockStartEvent_def Let_def)

lemma quiet_step:
  "\<not> messageStarted ctx \<Longrightarrow> \<not> opensEnvelope c \<Longrightarrow>
   \<not> messageStarted (snd (anthropicChunkFromAiSDK st c ctx))
   \<and> (\<forall>e\<in>set (resultEvents (fst (anthropicChunkFromAiSDK st c ctx))).
         \<not> isMessageStart e \<and> \<not> isContentBlockStart e)
   \<and> (\<not> continuesBlock c \<longrightarrow> resultEvents (fst (anthropicChunkFromAiSDK st c ctx)) = [])"
  by (cases c) (auto simp: Let_def split: option.splits)

lemma envelope_shape:
  "\<not> messageStarted ctx \<Longrightarrow>
   \<exists>P m R. allEvents st ctx cs = P @ (if list_ex opensEnvelope cs then m # R else [])
     \<and> isMessageStart m
     \<and> (\<forall>e\<in>set P. \<not> isMessageStart e \<and> \<not> isContentBlockStart e)
     \<and> (\<forall>e\<in>set R. \<not> isMessageStart e)
     \<and> (list_all (\<lambda>c. \<not> continuesBlock c) (takeWhile (\<lambda>c. \<not> opensEnvelope c) cs)
          \<longrightarrow> P = [])"
proof (induction cs arbitrary: ctx)
  case Nil
  have "isMessageStart (Message_start [] [] 0)" by simp
  then show ?case
    by (intro exI [of _ "[]"] exI [of _ "Message_start [] [] 0"]) simp
next
  case (Cons c cs)
  let ?ctx' = "snd (anthropicChunkFromAiSDK st c ctx)"
  let ?out = "resultEvents (fst (anthropicChunkFromAiSDK st c ctx))"
  show ?case
  proof (cases "opensEnvelope c")
    case True
    from opening_step [OF Cons.prems True, of st] obtain rest where
      st': "messageStarted ?ctx'" and out: "?out = createMessageStartEvent ctx # rest"
      and rest: "\<forall>e\<in>set rest. \<not> isMessageStart e"
      by blast
    have tail: "\<forall>e\<in>set (allEvents st ?ctx' cs). \<not> isMessageStart e"
      using started_stream [OF st'] by blast
    have "allEvents st ctx (c # cs)
            = [] @ (if list_ex opensEnvelope (c # cs)
                    then createMessageStartEvent ctx # (rest @ allEvents st ?ctx' cs) else [])"
      using True out by simp
    moreover have "isMessageStart (createMessageStartEvent ctx)"
      by (simp add: createMessageStartEvent_def)
    moreover have "\<forall>e\<in>set (rest @ allEvents st ?ctx' cs). \<not> isMessageStart e"
      using rest tail by auto
    ultimately show ?thesis
      by (intro exI [of _ "[]"] exI [of _ "createMessageStartEvent ctx"]
          exI [of _ "rest @ allEvents st ?ctx' cs"]) simp
  next
    case False
    from quiet_step [OF Cons.prems False, of st] have
      st': "\<not> messageStarted ?ctx'"
      and out: "\<forall>e\<in>set ?out. \<not> isMessageStart e \<and> \<not> isContentBlockStart e"
      and quiet: "\<not> continuesBlock c \<longrightarrow> ?out = []"
      by blast+
    from Cons.IH [OF st'] obtain P m R where
      shape: "allEvents st ?ctx' cs = P @ (if list_ex opensEnvelope cs then m # R else [])"
      and m: "isMessageStart m"
      and P: "\<forall>e\<in>set P. \<not> isMessageStart e \<and> \<not> isContentBlockStart e"
      and R: "\<forall>e\<in>set R. \<not> isMessageStart e"
      and P_empty: "list_all (\<lambda>c. \<not> continuesBlock c) (takeWhile (\<lambda>c. \<not> opensEnvelope c) cs)
                      \<longrightarrow> P = []"
      by blast
    have "allEvents st ctx (c # cs)
            = (?out @ P) @ (if list_ex opensEnvelope (c # cs) then m # R else [])"
      using False shape by simp
    moreover have "\<forall>e\<in>set (?out @ P). \<not> isMessageStart e \<and> \<not> isContentBlockStart e"
      using out P by auto
    moreover have "list_all (\<lambda>c. \<not> continuesBlock c)
                     (takeWhile (\<lambda>c. \<not> opensEnvelope c) (c # cs)) \<longrightarrow> ?out @ P = []"
      using False quiet P_empty by simp
    ultimately show ?thesis
      using m R by blast
  qed
qed

text \<open>
  On any stream: message_start is emitted once when the stream has an opening part and
  not at all otherwise, every content_block_start comes after it, and so does every
  content-block event when no delta or end part arrives before the first opening part.
\<close>

lemma envelope_open_general:
  assumes "\<not> messageStarted ctx"
  shows "length (filter isMessageStart (allEvents st ctx cs))
           = (if list_ex opensEnvelope cs then 1 else 0)
       \<and> (\<forall>k < length (allEvents st ctx cs). isContentBlockStart (allEvents st ctx cs ! k)
             \<longrightarrow> (\<exists>j<k. isMessageStart (allEvents st ctx cs ! j)))
       \<and> (list_all (\<lambda>c. \<not> continuesBlock c) (takeWhile (\<lambda>c. \<not> opensEnvelope c) cs)
             \<longrightarrow> (\<forall>k < length (allEvents st ctx cs). isContentBlockEvent (allEvents st ctx cs ! k)
                    \<longrightarrow> (\<exists>j<k. isMessageStart (allEvents st ctx cs ! j))))"
proof -
  from envelope_shape [OF assms, of st cs] obtain P m R where
    shape: "allEvents st ctx cs = P @ (if list_ex opensEnvelope cs then m # R else [])"
    and m: "isMessageStart m"
    and P: "\<forall>e\<in>set P. \<not> isMessageStart e \<and> \<not> isContentBlockStart e"
    and R: "\<forall>e\<in>set R. \<not> isMessageStart e"
    and P_empty: "list_all (\<lambda>c. \<not> continuesBlock c) (takeWhile (\<lambda>c. \<not> opensEnvelope c) cs)
                    \<longrightarrow> P = []"
    by blast
  have fP: "filter isMessageStart P = []" and fR: "filter isMessageStart R = []"
    using P R by (auto simp: filter_empty_conv)
  have once: "length (filter isMessageStart (allEvents st ctx cs))
                = (if list_ex opensEnvelope cs then 1 else 0)"
    using shape m fP fR by simp
  have not_start: "\<not> isContentBlockStart m" "\<not> isContentBlockEvent m"
    using m by (cases m; simp)+
  have starts: "\<exists>j<k. isMessageStart (allEvents st ctx cs ! j)"
    if k: "k < length (allEvents st ctx cs)" and b: "isContentBlockStart (allEvents st ctx cs ! k)"
    for k
  proof -
    have "\<not> k < length P"
      using P b shape by (auto simp: nth_append)
    moreover have "k \<noteq> length P"
      using b shape not_start k by (auto simp: nth_append split: if_splits)
    ultimately have "length P < k" by simp
    moreover have "isMessageStart (allEvents st ctx cs ! length P)"
      using shape k m \<open>\<not> k < length P\<close> by (auto simp: nth_append split: if_splits)
    ultimately show ?thesis by blast
  qed
  have events: "\<exists>j<k. isMessageStart (allEvents st ctx cs ! j)"
    if ord: "list_all (\<lambda>c. \<not> continuesBlock c) (takeWhile (\<lambda>c. \<not> opensEnvelope c) cs)"
      and k: "k < length (allEvents st ctx cs)"
      and b: "isContentBlockEvent (allEvents st ctx cs ! k)"
    for k
  proof -
    have P0: "P = []" using ord P_empty by simp
    have "k \<noteq> 0"
      using b shape not_start k P0 by (cases k) (auto split: if_splits)
    moreover have "isMessageStart (allEvents st ctx cs ! 0)"
      using shape k m P0 by (auto split: if_splits)
    ultimately show ?thesis by blast
  qed
  show ?thesis
    using once starts events by blast
qed


text \<open>
  In a lifecycle-ordered stream no delta or end part arrives before the first opening
  part: while no span is open, only a start (or a complete tool call) is in order.
\<close>

lemma lifecycle_prefix_quiet:
  "lifecycleOrdered [] cs \<Longrightarrow>
   list_all (\<lambda>c. \<not> continuesBlock c) (takeWhile (\<lambda>c. \<not> opensEnvelope c) cs)"
proof (induction cs)
  case Nil
  then show ?case by simp
next
  case (Cons c cs)
  then show ?case by (cases c) auto
qed

text \<open>C1. For adapter A, on a context that has not emitted message_start (a fresh one
  in particular), for any lifecycle-ordered stream that has a text-start,
  reasoning-start, tool-input-start, tool-call, start or finish part, whichever of them
  comes first: message_start appears exactly once in the concatenation of the returned
  event lists, and before every content-block event.\<close>

theorem envelope_open_once:
  assumes "\<not> messageStarted ctx"
    and "lifecycleOrdered [] cs"
    and "list_ex opensEnvelope cs"
  shows "length (filter isMessageStart (allEvents st ctx cs)) = 1
       \<and> (\<forall>k < length (allEvents st ctx cs). isContentBlockEvent (allEvents st ctx cs ! k)
             \<longrightarrow> (\<exists>j<k. isMessageStart (allEvents st ctx cs ! j)))"
proof -
  have quiet: "list_all (\<lambda>c. \<not> continuesBlock c) (takeWhile (\<lambda>c. \<not> opensEnvelope c) cs)"
    using assms(2) by (rule lifecycle_prefix_quiet)
  show ?thesis
    using envelope_open_general [OF assms(1), of st cs] assms(3) quiet by simp
qed

theorem envelope_open_once_witness:
  "length (filter isMessageStart
     (allEvents id (createChunkConversionContext_anthropic ''msg_1'' ''claude'')
        [StartStep, ToolCall ''toolu_1'' ''get_weather'' ''{}'', TextStart ''t1'',
         TextDelta ''t1'' ''Hi'', TextEnd ''t1'', Finish ''stop'' \<lparr>inputTokens = None,
           outputTokens = None, totalTokens = None\<rparr>])) = 1
   \<and> isMessageStart
     (allEvents id (createChunkConversionContext_anthropic ''msg_1'' ''claude'')
        [StartStep, ToolCall ''toolu_1'' ''get_weather'' ''{}'', TextStart ''t1'',
         TextDelta ''t1'' ''Hi'', TextEnd ''t1'', Finish ''stop'' \<lparr>inputTokens = None,
           outputTokens = None, totalTokens = None\<rparr>] ! 0)"
proof -
  let ?cs = "[StartStep, ToolCall ''toolu_1'' ''get_weather'' ''{}'', TextStart ''t1'',
              TextDelta ''t1'' ''Hi'', TextEnd ''t1'', Finish ''stop'' \<lparr>inputTokens = None,
                outputTokens = None, totalTokens = None\<rparr> :: string chunk]"
  have h: "\<not> messageStarted (createChunkConversionContext_anthropic ''msg_1'' ''claude'')"
    by (simp add: createChunkConversionContext_anthropic_def)
  have ordered: "lifecycleOrdered [] ?cs"
    by simp
  have opener: "list_ex opensEnvelope ?cs"
    by simp
  show ?thesis
    using envelope_open_once [OF h ordered opener, of id]
    by (simp add: createChunkConversionContext_anthropic_def ensureMessageStarted_def
        createMessageStartEvent_def createContentBlockStartEvent_def)
qed

lemma pushFunctionCalls_map:
  "pushFunctionCalls parse eo fcs ps =
     ps @ map (\<lambda>(i, fc). FunctionCallPart i (fc_name fc) (parseArgs parse eo (fc_args fc))) fcs"
  by (induction fcs arbitrary: ps) auto

lemma parseArgs_total:
  "parse [] = None \<Longrightarrow> parseArgs parse eo a = (case parse a of Some v \<Rightarrow> v | None \<Rightarrow> eo)"
  by (simp add: parseArgs_def)

lemma google_output_content:
  "googleChunkFromAiSDK st parse eo c ctx = (Out r, ctx') \<Longrightarrow>
   candidate_content r = buildContent parse eo ctx'"
  by (cases c)
     (auto simp: buildIncrementalResponse_def buildFinalResponse_def Let_def
        split: option.splits)

text \<open>C8. The content of a snapshot has the role "model"; its parts are the text part
  with the accumulated text when that is not empty, then one function-call part per
  entry of the map, in the map's order, with the id, the name and the parsed args (the
  empty object when parsing fails); with no text and no entry the parts are one empty
  text part, so they are never empty. Every snapshot the adapter emits carries the
  content built from the context it leaves. \<open>JSON.parse\<close> rejects the empty text.\<close>

theorem buildContent_parts:
  assumes "parse [] = None"
  shows "role (buildContent parse eo ctx) = ''model''
       \<and> parts (buildContent parse eo ctx) =
           (if accumulatedText ctx = [] \<and> accumulatedFunctionCalls ctx = [] then [TextPart []]
            else (if accumulatedText ctx \<noteq> [] then [TextPart (accumulatedText ctx)] else [])
                 @ map (\<lambda>(i, fc). FunctionCallPart i (fc_name fc)
                          (case parse (fc_args fc) of Some v \<Rightarrow> v | None \<Rightarrow> eo))
                     (accumulatedFunctionCalls ctx))
       \<and> parts (buildContent parse eo ctx) \<noteq> []
       \<and> (googleChunkFromAiSDK st parse eo c ctx0 = (Out r, ctx)
            \<longrightarrow> candidate_content r = buildContent parse eo ctx)"
proof -
  have args: "(\<lambda>(i, fc). FunctionCallPart i (fc_name fc) (parseArgs parse eo (fc_args fc)))
                = (\<lambda>(i, fc). FunctionCallPart i (fc_name fc)
                     (case parse (fc_args fc) of Some v \<Rightarrow> v | None \<Rightarrow> eo))"
    using assms by (simp add: parseArgs_total)
  have "role (buildContent parse eo ctx) = ''model''"
    by (simp add: buildContent_def Let_def)
  moreover have "parts (buildContent parse eo ctx) =
           (if accumulatedText ctx = [] \<and> accumulatedFunctionCalls ctx = [] then [TextPart []]
            else (if accumulatedText ctx \<noteq> [] then [TextPart (accumulatedText ctx)] else [])
                 @ map (\<lambda>(i, fc). FunctionCallPart i (fc_name fc)
                          (case parse (fc_args fc) of Some v \<Rightarrow> v | None \<Rightarrow> eo))
                     (accumulatedFunctionCalls ctx))"
    by (simp add: buildContent_def Let_def pushFunctionCalls_map args)
  moreover have "parts (buildContent parse eo ctx) \<noteq> []"
    by (simp add: buildContent_def Let_def pushFunctionCalls_map)
  ultimately show ?thesis
    by (simp add: google_output_content)
qed

theorem buildContent_parts_witness:
  "parts (buildContent parseEmptyObject ''EMPTY''
     (snd (feed (googleChunkFromAiSDK id parseEmptyObject ''EMPTY'')
        (createChunkConversionContext_google ''r'' ''gemini'')
        [TextDelta ''t'' ''hi'', ToolInputStart ''a'' ''f'', ToolInputStart ''b'' ''g'',
         ToolInputDelta ''b'' ''{'', ToolInputDelta ''a'' ''{}''])))
   = [TextPart ''hi'', FunctionCallPart ''a'' ''f'' ''{}'', FunctionCallPart ''b'' ''g'' ''EMPTY'']"
proof -
  have h: "parseEmptyObject [] = None"
    by (simp add: parseEmptyObject_def)
  have c: "snd (feed (googleChunkFromAiSDK id parseEmptyObject ''EMPTY'')
             (createChunkConversionContext_google ''r'' ''gemini'')
             [TextDelta ''t'' ''hi'', ToolInputStart ''a'' ''f'', ToolInputStart ''b'' ''g'',
              ToolInputDelta ''b'' ''{'', ToolInputDelta ''a'' ''{}''])
           = \<lparr> responseId = ''r'', modelVersion = ''gemini'', accumulatedText = ''hi'',
               accumulatedFunctionCalls =
                 [(''a'', \<lparr> fc_name = ''f'', fc_args = ''{}'' \<rparr>),
                  (''b'', \<lparr> fc_name = ''g'', fc_args = ''{'' \<rparr>)],
               goo_inputTokens = 0, goo_outputTokens = 0 \<rparr>"
    by (simp add: createChunkConversionContext_google_def Let_def)
  show ?thesis
    unfolding c
    using buildContent_parts [where parse = parseEmptyObject and eo = "''EMPTY''" and ctx =
        "\<lparr> responseId = ''r'', modelVersion = ''gemini'', accumulatedText = ''hi'',
           accumulatedFunctionCalls =
             [(''a'', \<lparr> fc_name = ''f'', fc_args = ''{}'' \<rparr>),
              (''b'', \<lparr> fc_name = ''g'', fc_args = ''{'' \<rparr>)],
           goo_inputTokens = 0, goo_outputTokens = 0 \<rparr>", OF h, THEN conjunct2, THEN conjunct1]
    by (simp add: parseEmptyObject_def)
qed

text \<open>C9 (as amended). On an error part whose value has a string form, every adapter
  returns an error result whose message is that string form, \<open>String(error)\<close>, and
  leaves the context as it was. The message is the string itself for a string; for an
  Error instance it is \<open>name + ": " + message\<close> when neither is empty, and it is the bare
  message field only when the name is empty; for a plain object, with or without a
  message field, it is \<open>[object Object]\<close>.\<close>

theorem error_passthrough:
  "anthropicChunkFromAiSDK stringify (ErrorChunk e) a = (Error (js_String e), a)
   \<and> openaiChunkFromAiSDK stringify (ErrorChunk e) b = (Error (js_String e), b)
   \<and> googleChunkFromAiSDK stringify parse eo (ErrorChunk e) g = (Error (js_String e), g)
   \<and> js_String (JsString s) = s
   \<and> (n \<noteq> [] \<and> m \<noteq> [] \<longrightarrow> js_String (JsError n m) = n @ '': '' @ m)
   \<and> ((js_String (JsError n m) = m) = (n = []))
   \<and> js_String JsPlainObject = ''[object Object]''"
proof -
  have "(n @ '': '') @ m \<noteq> m"
    by (simp only: append_self_conv2) simp
  then have longer: "n @ '': '' @ m \<noteq> m"
    by simp
  have "(js_String (JsError n m) = m) = (n = [])"
    using longer by auto
  then show ?thesis
    by simp
qed

theorem error_passthrough_witness:
  "fst (googleChunkFromAiSDK id parseNothing [] (ErrorChunk (JsError ''TypeError'' ''bad''))
          (createChunkConversionContext_google ''r'' ''gemini'')) = Error ''TypeError: bad''
   \<and> js_String (JsError ''TypeError'' ''bad'') = ''TypeError: bad''
   \<and> js_String (JsError ''TypeError'' ''bad'') \<noteq> ''bad''"
  using error_passthrough [of id "JsError ''TypeError'' ''bad''" _ _ parseNothing "[]"
      "createChunkConversionContext_google ''r'' ''gemini''" _ "''TypeError''" "''bad''"]
  by simp

theorem error_message_field_counterexample:
  "fst (anthropicChunkFromAiSDK id (ErrorChunk (JsError ''Error'' ''Something went wrong''))
          (createChunkConversionContext_anthropic ''msg_1'' ''claude''))
     = Error ''Error: Something went wrong''
   \<and> fst (anthropicChunkFromAiSDK id (ErrorChunk (JsError ''Error'' ''Something went wrong''))
          (createChunkConversionContext_anthropic ''msg_1'' ''claude''))
     \<noteq> Error ''Something went wrong''"
  by simp


section \<open>Content-block indices of adapter A\<close>

lemma blocksInOrder_start_indices:
  "blocksInOrder n opn es \<Longrightarrow>
   blockStartIndices es =
     [(if opn then Suc n else n) ..< (if opn then Suc n else n) + length (blockStartIndices es)]"
proof (induction n opn es rule: blocksInOrder.induct)
  case (2 n opn i b es)
  let ?k = "length (blockStartIndices es)"
  have tail: "blockStartIndices es = [Suc n..<Suc n + ?k]"
    using 2 by simp
  have "[n..<n + Suc ?k] = n # [Suc n..<Suc n + ?k]"
    by (simp add: upt_conv_Cons del: upt_Suc)
  then have "[n..<n + Suc ?k] = n # blockStartIndices es"
    using tail by simp
  then show ?case
    using 2 by (simp del: upt_Suc)
qed auto

lemma sequential_blocks:
  "sequentialSpans cur cs \<Longrightarrow>
   (\<forall>i. cur = Some (ToolSpan, i)
      \<longrightarrow> map_of (anth_toolCallIndices ctx) i = Some (contentBlockIndex ctx)) \<Longrightarrow>
   blocksInOrder (contentBlockIndex ctx) (cur \<noteq> None) (allEvents st ctx cs)"
proof (induction cs arbitrary: cur ctx)
  case Nil
  then show ?case by simp
next
  case (Cons c cs)
  show ?case
  proof (cases c)
    case (TextStart i)
    then show ?thesis
      using Cons.prems Cons.IH [of "Some (TextSpan, i)" "snd (anthropicChunkFromAiSDK st c ctx)"]
      by (cases "messageStarted ctx")
         (auto simp: ensureMessageStarted_def createMessageStartEvent_def
            createContentBlockStartEvent_def)
  next
    case (TextDelta i t)
    then show ?thesis
      using Cons.prems Cons.IH [of cur "snd (anthropicChunkFromAiSDK st c ctx)"]
      by auto
  next
    case (TextEnd i)
    then show ?thesis
      using Cons.prems Cons.IH [of None "snd (anthropicChunkFromAiSDK st c ctx)"]
      by auto
  next
    case (ReasoningStart i)
    then show ?thesis
      using Cons.prems
        Cons.IH [of "Some (ReasoningSpan, i)" "snd (anthropicChunkFromAiSDK st c ctx)"]
      by (cases "messageStarted ctx")
         (auto simp: ensureMessageStarted_def createMessageStartEvent_def
            createContentBlockStartEvent_def)
  next
    case (ReasoningDelta i t)
    then show ?thesis
      using Cons.prems Cons.IH [of cur "snd (anthropicChunkFromAiSDK st c ctx)"]
      by auto
  next
    case (ReasoningEnd i)
    then show ?thesis
      using Cons.prems Cons.IH [of None "snd (anthropicChunkFromAiSDK st c ctx)"]
      by auto
  next
    case (ToolInputStart i n)
    then show ?thesis
      using Cons.prems Cons.IH [of "Some (ToolSpan, i)" "snd (anthropicChunkFromAiSDK st c ctx)"]
      by (cases "messageStarted ctx")
         (auto simp: ensureMessageStarted_def createMessageStartEvent_def
            createContentBlockStartEvent_def update_conv')
  next
    case (ToolInputDelta i d)
    then show ?thesis
      using Cons.prems Cons.IH [of cur "snd (anthropicChunkFromAiSDK st c ctx)"]
      by (auto simp: Let_def)
  next
    case (ToolInputEnd i)
    then show ?thesis
      using Cons.prems Cons.IH [of None "snd (anthropicChunkFromAiSDK st c ctx)"]
      by auto
  next
    case (ToolCall i n inp)
    then show ?thesis
      using Cons.prems Cons.IH [of None "snd (anthropicChunkFromAiSDK st c ctx)"]
      by (cases "messageStarted ctx")
         (auto simp: ensureMessageStarted_def createMessageStartEvent_def
            createContentBlockStartEvent_def Let_def)
  next
    case (FinishStep u r)
    then show ?thesis
      using Cons.prems Cons.IH [of cur "snd (anthropicChunkFromAiSDK st c ctx)"]
      by (auto simp: Let_def split: option.splits)
  next
    case (Finish r u)
    then show ?thesis
      using Cons.prems Cons.IH [of cur "snd (anthropicChunkFromAiSDK st c ctx)"]
      by (cases "messageStarted ctx")
         (auto simp: ensureMessageStarted_def createMessageStartEvent_def Let_def)
  next
    case Start
    then show ?thesis
      using Cons.prems Cons.IH [of cur "snd (anthropicChunkFromAiSDK st c ctx)"]
      by (cases "messageStarted ctx")
         (auto simp: ensureMessageStarted_def createMessageStartEvent_def Let_def)
  qed (use Cons.prems Cons.IH [of cur ctx] in simp_all)
qed

lemma sequential_lifecycle:
  "(sequentialSpans None cs \<longrightarrow> lifecycleOrdered [] cs)
   \<and> (\<forall>x. sequentialSpans (Some x) cs \<longrightarrow> lifecycleOrdered [x] cs)"
proof (induction cs)
  case Nil
  then show ?case by simp
next
  case (Cons c cs)
  then show ?case by (cases c) auto
qed

text \<open>
  On a lifecycle-ordered stream whose spans do not overlap, the content-block events form
  blocks at the indices n, n + 1, n + 2, ... from the context's index n, each a start,
  then its deltas, then its stop.
\<close>

lemma sequential_block_indices:
  assumes "sequentialSpans None cs"
  shows "lifecycleOrdered [] cs
       \<and> blocksInOrder (contentBlockIndex ctx) False (allEvents st ctx cs)
       \<and> blockStartIndices (allEvents st ctx cs) =
           [contentBlockIndex ctx ..<
              contentBlockIndex ctx + length (blockStartIndices (allEvents st ctx cs))]"
proof -
  have ordered: "blocksInOrder (contentBlockIndex ctx) False (allEvents st ctx cs)"
    using sequential_blocks [OF assms, of ctx st] by simp
  show ?thesis
    using ordered blocksInOrder_start_indices [OF ordered] sequential_lifecycle [of cs] assms
    by simp
qed

text \<open>C3. The claim is that over any full lifecycle-ordered stream the content-block
  indices of adapter A are 0, 1, 2, ... with no reuse and no gap, each index a start,
  its deltas and its stop in order. The adapter breaks it when spans overlap: on the
  lifecycle-ordered stream below, with two tool-input spans of distinct ids open at
  once, it opens both tool_use blocks at index 0, closes index 0 twice, and opens the
  next block at index 2, so index 0 is used by two blocks and index 1 by none.\<close>

theorem overlapping_spans_share_index:
  "lifecycleOrdered []
     [Start, ToolInputStart ''a'' ''f'', ToolInputStart ''b'' ''g'', ToolInputEnd ''a'',
      ToolInputEnd ''b'', TextStart ''t1'', TextEnd ''t1'',
      Finish ''stop'' \<lparr>inputTokens = Some 1, outputTokens = Some 2, totalTokens = Some 3\<rparr>
      :: string chunk]
   \<and> allEvents id (createChunkConversionContext_anthropic ''msg_1'' ''claude'')
       [Start, ToolInputStart ''a'' ''f'', ToolInputStart ''b'' ''g'', ToolInputEnd ''a'',
        ToolInputEnd ''b'', TextStart ''t1'', TextEnd ''t1'',
        Finish ''stop'' \<lparr>inputTokens = Some 1, outputTokens = Some 2, totalTokens = Some 3\<rparr>]
     = [Message_start ''msg_1'' ''claude'' 0,
        Content_block_start 0 (Tool_use_block ''a'' ''f''),
        Content_block_start 0 (Tool_use_block ''b'' ''g''),
        Content_block_stop 0, Content_block_stop 0,
        Content_block_start 2 (Text_block []), Content_block_stop 2,
        Message_delta ''end_turn'' 2 1, Message_stop]
   \<and> \<not> blocksInOrder 0 False
       (allEvents id (createChunkConversionContext_anthropic ''msg_1'' ''claude'')
          [Start, ToolInputStart ''a'' ''f'', ToolInputStart ''b'' ''g'', ToolInputEnd ''a'',
           ToolInputEnd ''b'', TextStart ''t1'', TextEnd ''t1'',
           Finish ''stop'' \<lparr>inputTokens = Some 1, outputTokens = Some 2,
             totalTokens = Some 3\<rparr>])"
  by (simp add: createChunkConversionContext_anthropic_def ensureMessageStarted_def
      createMessageStartEvent_def createContentBlockStartEvent_def Let_def nullish_def
      convertStopReason_def)

text \<open>
  Adapter B, on the same two overlapping tool-input spans, gives the two open tool calls
  the distinct indices 0 and 1.
\<close>

lemma overlapping_spans_adapter_B:
  "\<exists>c0 c1. fst (feed (openaiChunkFromAiSDK id) (createChunkConversionContext_openai ''c1'' ''gpt'' 0)
               [ToolInputStart ''a'' ''f'', ToolInputStart ''b'' ''g'' :: string chunk])
             = [Out c0, Out c1]
           \<and> reportedIndices c0 = [0] \<and> reportedIndices c1 = [1]"
  by (simp add: createChunkConversionContext_openai_def getOrAssignIndex_def Let_def
      reportedIndices_def createChunk_def emptyDelta_def)

section \<open>Tool-call indices of adapter B\<close>















section \<open>Accumulation in adapter C\<close>

lemma buildContent_text:
  "concat (map partText (parts (buildContent parse eo ctx))) = accumulatedText ctx"
  by (auto simp: buildContent_def Let_def pushFunctionCalls_map split: prod.splits)

lemma google_output_text:
  "fst (googleChunkFromAiSDK st parse eo c ctx) = Out r \<Longrightarrow>
   snapshotText r = accumulatedText (snd (googleChunkFromAiSDK st parse eo c ctx))"
  using google_output_content [of st parse eo c ctx r "snd (googleChunkFromAiSDK st parse eo c ctx)"]
  by (simp add: snapshotText_def buildContent_text prod_eq_iff)

lemma google_step_text:
  "prefix (accumulatedText ctx) (accumulatedText (snd (googleChunkFromAiSDK st parse eo c ctx)))"
  by (cases c) (auto simp: Let_def split: option.splits)

lemma google_stream_text:
  "prefix (accumulatedText ctx)
     (accumulatedText (snd (feed (googleChunkFromAiSDK st parse eo) ctx cs)))"
proof (induction cs arbitrary: ctx)
  case Nil
  then show ?case by simp
next
  case (Cons c cs)
  from google_step_text [of ctx st parse eo c]
    Cons.IH [of "snd (googleChunkFromAiSDK st parse eo c ctx)"]
  show ?case by (auto intro: prefix_order.trans)
qed

lemma feed_nth:
  "k < length cs \<Longrightarrow>
   fst (feed f s cs) ! k = fst (f (cs ! k) (snd (feed f s (take k cs))))"
proof (induction cs arbitrary: s k)
  case Nil
  then show ?case by simp
next
  case (Cons c cs)
  then show ?case by (cases k) simp_all
qed

lemma feed_take_Suc:
  "k < length cs \<Longrightarrow>
   snd (feed f s (take (Suc k) cs)) = snd (f (cs ! k) (snd (feed f s (take k cs))))"
proof -
  assume "k < length cs"
  then have "take (Suc k) cs = take k cs @ [cs ! k]"
    by (simp add: take_Suc_conv_app_nth)
  then show ?thesis
    by (simp add: feed_snd_append)
qed

lemma snapshot_text_monotone:
  assumes "j < k" and "k < length cs"
    and "fst (feed (googleChunkFromAiSDK st parse eo) ctx cs) ! j = Out r1"
    and "fst (feed (googleChunkFromAiSDK st parse eo) ctx cs) ! k = Out r2"
  shows "prefix (snapshotText r1) (snapshotText r2)"
proof -
  let ?G = "googleChunkFromAiSDK st parse eo"
  let ?after = "\<lambda>n. snd (feed ?G ctx (take n cs))"
  have j: "j < length cs" using assms by simp
  have t1: "snapshotText r1 = accumulatedText (?after (Suc j))"
    using assms(3) j google_output_text [of st parse eo "cs ! j" "?after j" r1]
    by (simp add: feed_nth feed_take_Suc)
  have t2: "snapshotText r2 = accumulatedText (?after (Suc k))"
    using assms(2,4) google_output_text [of st parse eo "cs ! k" "?after k" r2]
    by (simp add: feed_nth feed_take_Suc)
  have "take (Suc k) cs = take (Suc j) cs @ drop (Suc j) (take (Suc k) cs)"
    using assms(1) by (metis Suc_leI Suc_le_mono append_take_drop_id less_imp_le_nat min.absorb1 take_take)
  then have "?after (Suc k) = snd (feed ?G (?after (Suc j)) (drop (Suc j) (take (Suc k) cs)))"
    by (metis feed_snd_append)
  then show ?thesis
    using google_stream_text [of "?after (Suc j)" st parse eo "drop (Suc j) (take (Suc k) cs)"]
    by (simp add: t1 t2)
qed

lemma google_args_step:
  assumes "map_of (accumulatedFunctionCalls ctx) i = Some \<lparr> fc_name = n, fc_args = a \<rparr>"
    and "\<not> introduces i c"
  shows "map_of (accumulatedFunctionCalls (snd (googleChunkFromAiSDK st parse eo c ctx))) i
           = Some \<lparr> fc_name = n, fc_args = a @ concat (deltasFor i [c]) \<rparr>"
  using assms
  by (cases c) (auto simp: Let_def update_conv' split: option.splits)

lemma deltasFor_Cons:
  "concat (deltasFor i (c # cs)) = concat (deltasFor i [c]) @ concat (deltasFor i cs)"
  by (cases c) simp_all

lemma google_args_stream:
  assumes "map_of (accumulatedFunctionCalls ctx) i = Some \<lparr> fc_name = n, fc_args = a \<rparr>"
    and "\<forall>c\<in>set cs. \<not> introduces i c"
  shows "map_of (accumulatedFunctionCalls (snd (feed (googleChunkFromAiSDK st parse eo) ctx cs))) i
           = Some \<lparr> fc_name = n, fc_args = a @ concat (deltasFor i cs) \<rparr>"
  using assms
proof (induction cs arbitrary: ctx a)
  case Nil
  then show ?case by simp
next
  case (Cons c cs)
  have step: "map_of (accumulatedFunctionCalls (snd (googleChunkFromAiSDK st parse eo c ctx))) i
                = Some \<lparr> fc_name = n, fc_args = a @ concat (deltasFor i [c]) \<rparr>"
    using Cons.prems by (intro google_args_step) simp_all
  from Cons.IH [OF step] Cons.prems(2) show ?case
    by (simp add: deltasFor_Cons [of i c cs])
qed

lemma google_start_entry:
  "map_of (accumulatedFunctionCalls
     (snd (googleChunkFromAiSDK st parse eo (ToolInputStart i n) ctx))) i
     = Some \<lparr> fc_name = n, fc_args = [] \<rparr>"
  by (simp add: update_conv')

lemma buildContent_has_call:
  assumes "map_of (accumulatedFunctionCalls ctx) i = Some fc"
  shows "FunctionCallPart i (fc_name fc) (parseArgs parse eo (fc_args fc))
           \<in> set (parts (buildContent parse eo ctx))"
proof -
  have "(i, fc) \<in> set (accumulatedFunctionCalls ctx)"
    using assms by (rule map_of_SomeD)
  then have "FunctionCallPart i (fc_name fc) (parseArgs parse eo (fc_args fc))
               \<in> set (map (\<lambda>(i, fc). FunctionCallPart i (fc_name fc)
                              (parseArgs parse eo (fc_args fc))) (accumulatedFunctionCalls ctx))"
    by force
  then show ?thesis
    by (auto simp: buildContent_def Let_def pushFunctionCalls_map)
qed

text \<open>C4. For adapter C, on any stream and any context, the text of a snapshot is a
  prefix of the text of every later snapshot; and the snapshot emitted on the
  tool-input-end of an id that a tool-input-start introduced, with no part introducing
  the id again in between, has a function-call part with the id, the name, and the
  JSON parse of the concatenation of the id's delta fragments since that start (the
  empty object when that text does not parse). \<open>JSON.parse\<close> rejects the empty text.\<close>

theorem snapshot_accumulation:
  assumes "parse [] = None"
  shows "(j < k \<and> k < length cs
          \<and> fst (feed (googleChunkFromAiSDK st parse eo) ctx cs) ! j = Out r1
          \<and> fst (feed (googleChunkFromAiSDK st parse eo) ctx cs) ! k = Out r2
          \<longrightarrow> prefix (snapshotText r1) (snapshotText r2))
       \<and> ((\<forall>c\<in>set mid. \<not> introduces i c) \<longrightarrow>
            (\<exists>r. fst (googleChunkFromAiSDK st parse eo (ToolInputEnd i)
                        (snd (feed (googleChunkFromAiSDK st parse eo) ctx
                           (pre @ ToolInputStart i n # mid)))) = Out r
                 \<and> FunctionCallPart i n
                      (case parse (concat (deltasFor i mid)) of Some v \<Rightarrow> v | None \<Rightarrow> eo)
                     \<in> set (parts (candidate_content r))))"
proof -
  let ?G = "googleChunkFromAiSDK st parse eo"
  have args: "FunctionCallPart i n
                (case parse (concat (deltasFor i mid)) of Some v \<Rightarrow> v | None \<Rightarrow> eo)
              \<in> set (parts (candidate_content
                   (buildIncrementalResponse parse eo
                      (snd (feed ?G ctx (pre @ ToolInputStart i n # mid))))))"
    if mid: "\<forall>c\<in>set mid. \<not> introduces i c"
  proof -
    let ?c1 = "snd (?G (ToolInputStart i n) (snd (feed ?G ctx pre)))"
    have "snd (feed ?G ctx (pre @ ToolInputStart i n # mid)) = snd (feed ?G ?c1 mid)"
      by (simp add: feed_snd_append)
    moreover have "map_of (accumulatedFunctionCalls (snd (feed ?G ?c1 mid))) i
                     = Some \<lparr> fc_name = n, fc_args = [] @ concat (deltasFor i mid) \<rparr>"
      using google_start_entry mid by (rule google_args_stream)
    ultimately have "map_of (accumulatedFunctionCalls
                       (snd (feed ?G ctx (pre @ ToolInputStart i n # mid)))) i
                     = Some \<lparr> fc_name = n, fc_args = concat (deltasFor i mid) \<rparr>"
      by simp
    from buildContent_has_call [OF this, of parse eo] show ?thesis
      using assms by (simp add: parseArgs_total buildIncrementalResponse_def)
  qed
  show ?thesis
    using snapshot_text_monotone [of j k cs st parse eo ctx r1 r2] args
    by simp
qed

theorem snapshot_accumulation_witness:
  "(\<exists>r1 r2.
      fst (feed (googleChunkFromAiSDK id parseEmptyObject ''EMPTY'')
             (createChunkConversionContext_google ''r'' ''gemini'')
             [TextDelta ''t'' ''hi'', ToolInputStart ''a'' ''f'', ToolInputDelta ''a'' ''{'',
              TextDelta ''t'' ''!'', ToolInputDelta ''a'' ''}'', ToolInputEnd ''a'']) ! 0 = Out r1
      \<and> fst (feed (googleChunkFromAiSDK id parseEmptyObject ''EMPTY'')
             (createChunkConversionContext_google ''r'' ''gemini'')
             [TextDelta ''t'' ''hi'', ToolInputStart ''a'' ''f'', ToolInputDelta ''a'' ''{'',
              TextDelta ''t'' ''!'', ToolInputDelta ''a'' ''}'', ToolInputEnd ''a'']) ! 3 = Out r2
      \<and> prefix (snapshotText r1) (snapshotText r2))
   \<and> (\<exists>r. fst (googleChunkFromAiSDK id parseEmptyObject ''EMPTY'' (ToolInputEnd ''a'')
                (snd (feed (googleChunkFromAiSDK id parseEmptyObject ''EMPTY'')
                   (createChunkConversionContext_google ''r'' ''gemini'')
                   ([TextDelta ''t'' ''hi''] @ ToolInputStart ''a'' ''f'' #
                    [ToolInputDelta ''a'' ''{'', TextDelta ''t'' ''!'',
                     ToolInputDelta ''a'' ''}''])))) = Out r
          \<and> FunctionCallPart ''a'' ''f'' ''{}'' \<in> set (parts (candidate_content r)))"
proof -
  let ?G = "googleChunkFromAiSDK id parseEmptyObject ''EMPTY''"
  let ?ctx = "createChunkConversionContext_google ''r'' ''gemini''"
  let ?cs = "[TextDelta ''t'' ''hi'', ToolInputStart ''a'' ''f'', ToolInputDelta ''a'' ''{'',
              TextDelta ''t'' ''!'', ToolInputDelta ''a'' ''}'', ToolInputEnd ''a'' :: string chunk]"
  let ?mid = "[ToolInputDelta ''a'' ''{'', TextDelta ''t'' ''!'',
               ToolInputDelta ''a'' ''}'' :: string chunk]"
  have h: "parseEmptyObject [] = None"
    by (simp add: parseEmptyObject_def)
  have m: "\<forall>c\<in>set ?mid. \<not> introduces ''a'' c"
    by simp
  obtain r1 where r1: "fst (feed ?G ?ctx ?cs) ! 0 = Out r1"
    by (simp add: Let_def)
  obtain r2 where r2: "fst (feed ?G ?ctx ?cs) ! 3 = Out r2"
    by (simp add: Let_def)
  have jk: "(0::nat) < 3 \<and> 3 < length ?cs"
    by simp
  note T = snapshot_accumulation [where parse = parseEmptyObject and j = 0 and k = 3 and cs = ?cs and st = id
      and eo = "''EMPTY''" and ctx = ?ctx and ?r1.0 = r1 and ?r2.0 = r2 and mid = ?mid
      and i = "''a''" and pre = "[TextDelta ''t'' ''hi'']" and n = "''f''", OF h]
  have first: "prefix (snapshotText r1) (snapshotText r2)"
    using T [THEN conjunct1] jk r1 r2 by blast
  have args: "concat (deltasFor ''a'' ?mid) = ''{}''"
    by simp
  have second: "\<exists>r. fst (?G (ToolInputEnd ''a'')
                (snd (feed ?G ?ctx ([TextDelta ''t'' ''hi''] @ ToolInputStart ''a'' ''f'' # ?mid))))
                  = Out r
          \<and> FunctionCallPart ''a'' ''f'' ''{}'' \<in> set (parts (candidate_content r))"
    using T [THEN conjunct2] m unfolding args by (simp add: parseEmptyObject_def)
  show ?thesis
    using r1 r2 first second by blast
qed

end
